theory Spec2Isabelle
  imports Complex_Main "HOL-Library.AList"
begin

section \<open>Exceptions\<close>

text \<open>
  Every raise of the storage adapters is a value: the class that was raised and its
  message. The classes are those of \<^verbatim>\<open>ports/repository.py\<close> (all four specific
  errors derive from \<^verbatim>\<open>RepositoryError\<close>), the built-in ones the adapters can meet,
  and those of the database drivers.
\<close>

datatype exc_class =
    Exception
  | RepositoryError
  | AssetNotFoundError
  | RelationshipNotFoundError
  | DuplicateAssetError
  | DuplicateRelationshipError
  | ValueError
  | KeyError
  | OSError
  | Sqlite3Error
  | IntegrityError
  | OperationalError
  | ServiceUnavailable
  | ClientError
  | TypeError

datatype error = Raise exc_class string

fun exc_class_of :: "error \<Rightarrow> exc_class" where
  "exc_class_of (Raise c m) = c"

fun str :: "error \<Rightarrow> string" where
  "str (Raise c m) = m"

text \<open>\<open>isinstance c d\<close>: an exception of class \<open>c\<close> is caught by \<^verbatim>\<open>except d\<close>.\<close>

fun isinstance :: "exc_class \<Rightarrow> exc_class \<Rightarrow> bool" where
  "isinstance c Exception = True"
| "isinstance c RepositoryError =
     (c = RepositoryError \<or> c = AssetNotFoundError \<or> c = RelationshipNotFoundError \<or>
      c = DuplicateAssetError \<or> c = DuplicateRelationshipError)"
| "isinstance c Sqlite3Error = (c = Sqlite3Error \<or> c = IntegrityError \<or> c = OperationalError)"
| "isinstance c d = (c = d)"

section \<open>The asset entity\<close>

text \<open>
  The dataclass \<^verbatim>\<open>Asset\<close>. Dictionaries are association lists in insertion order, as
  Python and JSON keep them; property and metadata values are kept as text. Timestamps are
  natural numbers. The in-memory list \<^verbatim>\<open>relationships\<close> is never persisted
  (\<^verbatim>\<open>to_dict\<close> writes only its length, \<^verbatim>\<open>from_dict\<close> drops that), so it is left out.
\<close>

record asset =
  asset_id :: string
  asset_type :: string
  provider :: string
  name :: string
  properties :: "(string \<times> string) list"
  tags :: "(string \<times> string) list"
  metadata :: "(string \<times> string) list"
  created_at :: nat
  updated_at :: nat
  discovered_at :: nat
  status :: string
  health :: string
  compliance_status :: string
  risk_score :: rat
  estimated_cost :: rat

definition allowed_types :: "string list" where
  "allowed_types = [''compute'', ''storage'', ''network'', ''database'',
     ''container'', ''function'', ''identity'', ''security'']"

definition allowed_providers :: "string list" where
  "allowed_providers = [''aws'', ''azure'', ''gcp'', ''kubernetes'',
     ''onprem'', ''hybrid'', ''custom'']"

definition allowed_statuses :: "string list" where
  "allowed_statuses = [''active'', ''inactive'', ''terminated'', ''unknown'']"

definition validate :: "asset \<Rightarrow> error + unit" where
  "validate a =
     (if asset_type a = [] then Inl (Raise ValueError ''Asset type is required'')
      else if provider a = [] then Inl (Raise ValueError ''Provider is required'')
      else if name a = [] then Inl (Raise ValueError ''Asset name is required'')
      else if asset_type a \<notin> set allowed_types
        then Inl (Raise ValueError (''Invalid asset type: '' @ asset_type a))
      else if provider a \<notin> set allowed_providers
        then Inl (Raise ValueError (''Invalid provider: '' @ provider a))
      else if status a \<notin> set allowed_statuses
        then Inl (Raise ValueError (''Invalid status: '' @ status a))
      else if \<not> (0 \<le> risk_score a \<and> risk_score a \<le> 100)
        then Inl (Raise ValueError ''Risk score must be between 0 and 100'')
      else Inr ())"

text \<open>
  \<^verbatim>\<open>uuid4().hex[:8]\<close> is random; the model fixes one value. It is reached only for an
  empty id, which no theorem below stores.
\<close>

definition uuid_hex8 :: string where
  "uuid_hex8 = ''00000000''"

definition generate_id :: "asset \<Rightarrow> string" where
  "generate_id a = provider a @ ''-'' @ asset_type a @ ''-'' @ uuid_hex8"

text \<open>
  \<^verbatim>\<open>to_dict\<close> lists the fields; the stored JSON object is the record itself.
  \<^verbatim>\<open>from_dict\<close> calls the constructor, whose \<^verbatim>\<open>__post_init__\<close> validates and
  then fills in an empty id.
\<close>

definition to_dict :: "asset \<Rightarrow> asset" where
  "to_dict a = a"

definition from_dict :: "asset \<Rightarrow> error + asset" where
  "from_dict d =
     (case validate d of
        Inl e \<Rightarrow> Inl e
      | Inr u \<Rightarrow> Inr (if asset_id d = [] then d\<lparr>asset_id := generate_id d\<rparr> else d))"

section \<open>The file-backed asset store\<close>

text \<open>
  A path below the base directory is a subdirectory name and a file name. An index file
  is a JSON object from a key to the list of ids. \<open>io t\<close> tells whether writing the
  file \<open>t\<close> raises \<^verbatim>\<open>OSError\<close> (a full disk, a directory that is not writable):
  the environment of the store. \<open>no_faults\<close> is the environment where every write goes
  through.
\<close>

type_synonym path = "string \<times> string"

type_synonym index = "(string \<times> string list) list"

datatype io_target = EntityFile path | TypeIndex | ProviderIndex | TagIndex

type_synonym io_env = "io_target \<Rightarrow> bool"

definition no_faults :: io_env where
  "no_faults = (\<lambda>t. False)"

record file_asset_repo =
  base_path :: string
  compress :: bool
  asset_files :: "(path \<times> asset) list"
  type_index :: index
  provider_index :: index
  tag_index :: index

definition extension :: "file_asset_repo \<Rightarrow> string" where
  "extension repo = (if compress repo then ''.json.gz'' else ''.json'')"

text \<open>\<^verbatim>\<open>__init__\<close> on a fresh directory: no entity file, three empty indices.\<close>

definition FileBasedAssetRepository :: "string \<Rightarrow> bool \<Rightarrow> file_asset_repo" where
  "FileBasedAssetRepository bp c =
     \<lparr>base_path = bp, compress = c, asset_files = [],
      type_index = [], provider_index = [], tag_index = []\<rparr>"

text \<open>
  \<^verbatim>\<open>_get_asset_path\<close> takes the first two characters of the id as the subdirectory,
  creates it (\<^verbatim>\<open>mkdir\<close> without parents) and joins the file name. The model's
  directory tree has two levels below the base path, and it does not walk a path: an id
  is taken to have no \<^verbatim>\<open>.\<close> or \<^verbatim>\<open>..\<close> component. An id with a path
  separator leaves the two levels. The path library drops the separators that end the
  subdirectory name; where one remains, the directory to make lies below a directory that
  no call creates, or outside the base path, and \<^verbatim>\<open>mkdir\<close> raises
  \<^verbatim>\<open>FileNotFoundError\<close> (an \<^verbatim>\<open>OSError\<close>). Otherwise the path is returned;
  where the separator is in the file name, no such file exists, and writing it raises (see
  \<open>write_entity\<close>).
\<close>

definition has_sep :: "string \<Rightarrow> bool" where
  "has_sep s = (CHR ''/'' \<in> set s)"

definition strip_sep :: "string \<Rightarrow> string" where
  "strip_sep s = rev (dropWhile (\<lambda>c. c = CHR ''/'') (rev s))"

definition asset_file :: "file_asset_repo \<Rightarrow> string \<Rightarrow> path" where
  "asset_file repo aid =
     ((if length aid \<ge> 2 then take 2 aid else ''00''), aid @ extension repo)"

definition get_asset_path :: "file_asset_repo \<Rightarrow> string \<Rightarrow> error + path" where
  "get_asset_path repo aid =
     (if has_sep (strip_sep (fst (asset_file repo aid)))
      then Inl (Raise OSError ''No such file or directory'')
      else Inr (asset_file repo aid))"

definition path_exists :: "file_asset_repo \<Rightarrow> path \<Rightarrow> bool" where
  "path_exists repo p = (map_of (asset_files repo) p \<noteq> None)"

text \<open>
  \<^verbatim>\<open>_write_json\<close> writes a temporary file and renames it over the destination: the
  destination holds either the old or the new content. A file name with a path separator
  names a file in a directory that was never created, and opening the temporary file
  raises.
\<close>

definition write_entity :: "io_env \<Rightarrow> file_asset_repo \<Rightarrow> path \<Rightarrow> asset \<Rightarrow> file_asset_repo \<times> (error + unit)" where
  "write_entity io repo p d =
     (if has_sep (snd p) then (repo, Inl (Raise OSError ''No such file or directory''))
      else if io (EntityFile p) then (repo, Inl (Raise OSError ''write failed''))
      else (repo\<lparr>asset_files := AList.update p d (asset_files repo)\<rparr>, Inr ()))"

definition write_type_index :: "io_env \<Rightarrow> file_asset_repo \<Rightarrow> index \<Rightarrow> file_asset_repo \<times> (error + unit)" where
  "write_type_index io repo idx =
     (if io TypeIndex then (repo, Inl (Raise OSError ''write failed''))
      else (repo\<lparr>type_index := idx\<rparr>, Inr ()))"

definition write_provider_index :: "io_env \<Rightarrow> file_asset_repo \<Rightarrow> index \<Rightarrow> file_asset_repo \<times> (error + unit)" where
  "write_provider_index io repo idx =
     (if io ProviderIndex then (repo, Inl (Raise OSError ''write failed''))
      else (repo\<lparr>provider_index := idx\<rparr>, Inr ()))"

definition write_tag_index :: "io_env \<Rightarrow> file_asset_repo \<Rightarrow> index \<Rightarrow> file_asset_repo \<times> (error + unit)" where
  "write_tag_index io repo idx =
     (if io TagIndex then (repo, Inl (Raise OSError ''write failed''))
      else (repo\<lparr>tag_index := idx\<rparr>, Inr ()))"

subsection \<open>Index maintenance\<close>

text \<open>
  \<^verbatim>\<open>_update_index\<close> repeats the same two branches for each index; they are
  \<open>index_add\<close> and \<open>index_remove\<close> here. \<^verbatim>\<open>list.remove\<close> deletes the first
  occurrence and raises \<^verbatim>\<open>ValueError\<close> when there is none.
\<close>

definition index_add :: "string \<Rightarrow> string \<Rightarrow> index \<Rightarrow> index" where
  "index_add k aid idx =
     (let idx1 = (if map_of idx k = None then AList.update k [] idx else idx);
          ids = (case map_of idx1 k of Some l \<Rightarrow> l | None \<Rightarrow> [])
      in if aid \<notin> set ids then AList.update k (ids @ [aid]) idx1 else idx1)"

definition index_remove :: "string \<Rightarrow> string \<Rightarrow> index \<Rightarrow> error + index" where
  "index_remove k aid idx =
     (case map_of idx k of
        None \<Rightarrow> Inr idx
      | Some ids \<Rightarrow>
          (if aid \<in> set ids
           then (let ids' = remove1 aid ids
                 in Inr (if ids' = [] then AList.delete k idx else AList.update k ids' idx))
           else Inl (Raise ValueError ''list.remove(x): x not in list'')))"

definition tag_str :: "string \<times> string \<Rightarrow> string" where
  "tag_str kv = fst kv @ ''='' @ snd kv"

fun tag_index_add :: "(string \<times> string) list \<Rightarrow> string \<Rightarrow> index \<Rightarrow> index" where
  "tag_index_add [] aid idx = idx"
| "tag_index_add (kv # kvs) aid idx = tag_index_add kvs aid (index_add (tag_str kv) aid idx)"

fun tag_index_remove :: "(string \<times> string) list \<Rightarrow> string \<Rightarrow> index \<Rightarrow> error + index" where
  "tag_index_remove [] aid idx = Inr idx"
| "tag_index_remove (kv # kvs) aid idx =
     (case index_remove (tag_str kv) aid idx of
        Inl e \<Rightarrow> Inl e
      | Inr idx' \<Rightarrow> tag_index_remove kvs aid idx')"

text \<open>
  The three indices are read, changed and written one after the other; an exception
  leaves the files written so far as they are.
\<close>

definition update_index :: "io_env \<Rightarrow> file_asset_repo \<Rightarrow> asset \<Rightarrow> bool \<Rightarrow> file_asset_repo \<times> (error + unit)" where
  "update_index io repo a remove =
     (case (if remove then index_remove (asset_type a) (asset_id a) (type_index repo)
            else Inr (index_add (asset_type a) (asset_id a) (type_index repo))) of
        Inl e \<Rightarrow> (repo, Inl e)
      | Inr type_idx \<Rightarrow>
     (case write_type_index io repo type_idx of
        (repo1, Inl e) \<Rightarrow> (repo1, Inl e)
      | (repo1, Inr u1) \<Rightarrow>
     (case (if remove then index_remove (provider a) (asset_id a) (provider_index repo1)
            else Inr (index_add (provider a) (asset_id a) (provider_index repo1))) of
        Inl e \<Rightarrow> (repo1, Inl e)
      | Inr provider_idx \<Rightarrow>
     (case write_provider_index io repo1 provider_idx of
        (repo2, Inl e) \<Rightarrow> (repo2, Inl e)
      | (repo2, Inr u2) \<Rightarrow>
     (case (if remove then tag_index_remove (tags a) (asset_id a) (tag_index repo2)
            else Inr (tag_index_add (tags a) (asset_id a) (tag_index repo2))) of
        Inl e \<Rightarrow> (repo2, Inl e)
      | Inr tag_idx \<Rightarrow> write_tag_index io repo2 tag_idx)))))"

subsection \<open>save, save_batch, find_by_id\<close>

text \<open>
  Each method is its \<^verbatim>\<open>try\<close> body followed by its handler. The handler of
  \<^verbatim>\<open>save\<close> is \<^verbatim>\<open>except Exception\<close>: it also catches the
  \<^verbatim>\<open>DuplicateAssetError\<close> the body raises, and raises a plain
  \<^verbatim>\<open>RepositoryError\<close> in its place.
\<close>

definition file_save_body :: "io_env \<Rightarrow> file_asset_repo \<Rightarrow> asset \<Rightarrow> file_asset_repo \<times> (error + asset)" where
  "file_save_body io repo a =
     (case get_asset_path repo (asset_id a) of
        Inl e \<Rightarrow> (repo, Inl e)
      | Inr asset_path \<Rightarrow>
      if path_exists repo asset_path
      then (repo, Inl (Raise DuplicateAssetError (''Asset '' @ asset_id a @ '' already exists'')))
      else (case write_entity io repo asset_path (to_dict a) of
              (repo1, Inl e) \<Rightarrow> (repo1, Inl e)
            | (repo1, Inr u) \<Rightarrow>
                (case update_index io repo1 a False of
                   (repo2, Inl e) \<Rightarrow> (repo2, Inl e)
                 | (repo2, Inr u') \<Rightarrow> (repo2, Inr a))))"

definition file_save :: "io_env \<Rightarrow> file_asset_repo \<Rightarrow> asset \<Rightarrow> file_asset_repo \<times> (error + asset)" where
  "file_save io repo a =
     (case file_save_body io repo a of
        (repo', Inl e) \<Rightarrow> (repo', Inl (Raise RepositoryError (''Failed to save asset: '' @ str e)))
      | (repo', Inr r) \<Rightarrow> (repo', Inr r))"

text \<open>
  The loop of \<^verbatim>\<open>save_batch\<close>, with its two accumulators. The first handler is
  \<^verbatim>\<open>except DuplicateAssetError\<close>, the second \<^verbatim>\<open>except Exception\<close>.
\<close>

fun file_save_batch_loop :: "io_env \<Rightarrow> file_asset_repo \<Rightarrow> asset list \<Rightarrow> asset list \<Rightarrow> string list
    \<Rightarrow> file_asset_repo \<times> asset list \<times> string list" where
  "file_save_batch_loop io repo [] saved_assets errors = (repo, saved_assets, errors)"
| "file_save_batch_loop io repo (a # as) saved_assets errors =
     (case file_save io repo a of
        (repo', Inr r) \<Rightarrow> file_save_batch_loop io repo' as (saved_assets @ [r]) errors
      | (repo', Inl e) \<Rightarrow>
          (if isinstance (exc_class_of e) DuplicateAssetError
           then file_save_batch_loop io repo' as saved_assets errors
           else file_save_batch_loop io repo' as saved_assets (errors @ [asset_id a @ '': '' @ str e])))"

fun join :: "string \<Rightarrow> string list \<Rightarrow> string" where
  "join sep [] = []"
| "join sep [x] = x"
| "join sep (x # y # ys) = x @ sep @ join sep (y # ys)"

definition file_save_batch :: "io_env \<Rightarrow> file_asset_repo \<Rightarrow> asset list \<Rightarrow> file_asset_repo \<times> (error + asset list)" where
  "file_save_batch io repo as =
     (case file_save_batch_loop io repo as [] [] of
        (repo', saved_assets, errors) \<Rightarrow>
          (if errors \<noteq> [] \<and> saved_assets = []
           then (repo', Inl (Raise RepositoryError (''Batch save failed: '' @ join ''; '' errors)))
           else (repo', Inr saved_assets)))"

definition file_find_by_id :: "file_asset_repo \<Rightarrow> string \<Rightarrow> error + asset option" where
  "file_find_by_id repo aid =
     (case get_asset_path repo aid of
        Inl e \<Rightarrow> Inl (Raise RepositoryError (''Failed to find asset: '' @ str e))
      | Inr asset_path \<Rightarrow>
     (case map_of (asset_files repo) asset_path of
        None \<Rightarrow> Inr None
      | Some d \<Rightarrow>
          (case from_dict d of
             Inl e \<Rightarrow> Inl (Raise RepositoryError (''Failed to find asset: '' @ str e))
           | Inr a \<Rightarrow> Inr (Some a))))"

subsection \<open>Finders\<close>

text \<open>
  The filter dictionary of \<^verbatim>\<open>find_all\<close>, one optional entry per key that
  \<^verbatim>\<open>_matches_filters\<close> reads. The entries are tested independently, so the order of
  the dictionary does not matter.
\<close>

record filters =
  f_asset_type :: "string option"
  f_provider :: "string option"
  f_status :: "string option"
  f_min_risk_score :: "rat option"
  f_max_risk_score :: "rat option"
  f_tags :: "(string \<times> string) list option"

definition filters_empty :: "filters \<Rightarrow> bool" where
  "filters_empty f =
     (f_asset_type f = None \<and> f_provider f = None \<and> f_status f = None \<and>
      f_min_risk_score f = None \<and> f_max_risk_score f = None \<and> f_tags f = None)"

definition matches_filters :: "asset \<Rightarrow> filters option \<Rightarrow> bool" where
  "matches_filters a fo =
     (case fo of
        None \<Rightarrow> True
      | Some f \<Rightarrow>
          (if filters_empty f then True
           else (case f_asset_type f of Some v \<Rightarrow> asset_type a = v | None \<Rightarrow> True) \<and>
                (case f_provider f of Some v \<Rightarrow> provider a = v | None \<Rightarrow> True) \<and>
                (case f_status f of Some v \<Rightarrow> status a = v | None \<Rightarrow> True) \<and>
                (case f_min_risk_score f of Some v \<Rightarrow> \<not> risk_score a < v | None \<Rightarrow> True) \<and>
                (case f_max_risk_score f of Some v \<Rightarrow> \<not> risk_score a > v | None \<Rightarrow> True) \<and>
                (case f_tags f of
                   Some ts \<Rightarrow> list_all (\<lambda>kv. map_of (tags a) (fst kv) = Some (snd kv)) ts
                 | None \<Rightarrow> True)))"

definition endswith :: "string \<Rightarrow> string \<Rightarrow> bool" where
  "endswith s suf = (length suf \<le> length s \<and> drop (length s - length suf) s = suf)"

definition startswith_dot :: "string \<Rightarrow> bool" where
  "startswith_dot s = (case s of [] \<Rightarrow> False | c # cs \<Rightarrow> c = CHR ''.'')"

text \<open>
  The entity files \<^verbatim>\<open>find_all\<close> walks: those of the subdirectories whose name does
  not start with a dot, with the store's extension. The order of a directory listing is
  the operating system's; the model lists the files in the order they were created.
\<close>

definition listed_files :: "file_asset_repo \<Rightarrow> (path \<times> asset) list" where
  "listed_files repo =
     filter (\<lambda>pd. \<not> startswith_dot (fst (fst pd)) \<and> endswith (snd (fst pd)) (extension repo))
       (asset_files repo)"

fun find_all_loop :: "(path \<times> asset) list \<Rightarrow> filters option \<Rightarrow> nat option \<Rightarrow> nat option
    \<Rightarrow> asset list \<Rightarrow> nat \<Rightarrow> error + asset list" where
  "find_all_loop [] fo limit offset assets count = Inr assets"
| "find_all_loop (pd # pds) fo limit offset assets count =
     (if (case offset of Some k \<Rightarrow> k \<noteq> 0 \<and> count < k | None \<Rightarrow> False)
      then find_all_loop pds fo limit offset assets (count + 1)
      else if (case limit of Some k \<Rightarrow> k \<noteq> 0 \<and> length assets \<ge> k | None \<Rightarrow> False)
      then Inr assets
      else (case from_dict (snd pd) of
              Inl e \<Rightarrow> Inl e
            | Inr a \<Rightarrow>
                find_all_loop pds fo limit offset
                  (if matches_filters a fo then assets @ [a] else assets) (count + 1)))"

definition file_find_all :: "file_asset_repo \<Rightarrow> filters option \<Rightarrow> nat option \<Rightarrow> nat option
    \<Rightarrow> error + asset list" where
  "file_find_all repo fo limit offset =
     (case find_all_loop (listed_files repo) fo limit offset [] 0 of
        Inl e \<Rightarrow> Inl (Raise RepositoryError (''Failed to find assets: '' @ str e))
      | Inr assets \<Rightarrow> Inr assets)"

text \<open>
  The loop shared by \<^verbatim>\<open>find_by_type\<close>, \<^verbatim>\<open>find_by_provider\<close> and
  \<^verbatim>\<open>find_by_tags\<close>: look every id up, keep the assets found.
\<close>

fun collect_assets :: "file_asset_repo \<Rightarrow> string list \<Rightarrow> error + asset list" where
  "collect_assets repo [] = Inr []"
| "collect_assets repo (aid # aids) =
     (case file_find_by_id repo aid of
        Inl e \<Rightarrow> Inl e
      | Inr found \<Rightarrow>
          (case collect_assets repo aids of
             Inl e \<Rightarrow> Inl e
           | Inr assets \<Rightarrow> Inr ((case found of Some a \<Rightarrow> [a] | None \<Rightarrow> []) @ assets)))"

definition index_get :: "index \<Rightarrow> string \<Rightarrow> string list" where
  "index_get idx k = (case map_of idx k of Some ids \<Rightarrow> ids | None \<Rightarrow> [])"



text \<open>
  \<^verbatim>\<open>find_by_tags\<close>: \<open>matching_ids\<close> starts as \<^verbatim>\<open>None\<close> and becomes a set at the
  first tag. A Python set is a duplicate-free list here; the order in which Python walks
  a set is not fixed, the model keeps the order of the index.
\<close>

fun matching_ids_loop :: "index \<Rightarrow> (string \<times> string) list \<Rightarrow> string list option \<Rightarrow> string list option" where
  "matching_ids_loop tag_idx [] matching_ids = matching_ids"
| "matching_ids_loop tag_idx (kv # kvs) matching_ids =
     (let tag_asset_ids = remdups (index_get tag_idx (tag_str kv))
      in matching_ids_loop tag_idx kvs
           (case matching_ids of
              None \<Rightarrow> Some tag_asset_ids
            | Some m \<Rightarrow> Some (filter (\<lambda>x. x \<in> set tag_asset_ids) m)))"

definition file_find_by_tags :: "file_asset_repo \<Rightarrow> (string \<times> string) list \<Rightarrow> error + asset list" where
  "file_find_by_tags repo ts =
     (case matching_ids_loop (tag_index repo) ts None of
        None \<Rightarrow> Inr []
      | Some m \<Rightarrow>
          (if m = [] then Inr []
           else (case collect_assets repo m of
                   Inl e \<Rightarrow> Inl (Raise RepositoryError (''Failed to find assets by tags: '' @ str e))
                 | Inr assets \<Rightarrow> Inr assets)))"

subsection \<open>update, delete, count, exists\<close>




text \<open>\<^verbatim>\<open>unlink\<close> is not routed through \<^verbatim>\<open>_write_json\<close>; it is taken to succeed.\<close>

definition file_delete_body :: "io_env \<Rightarrow> file_asset_repo \<Rightarrow> string \<Rightarrow> file_asset_repo \<times> (error + bool)" where
  "file_delete_body io repo aid =
     (case get_asset_path repo aid of
        Inl e \<Rightarrow> (repo, Inl e)
      | Inr asset_path \<Rightarrow>
     (case map_of (asset_files repo) asset_path of
        None \<Rightarrow> (repo, Inr False)
      | Some data \<Rightarrow>
     (case from_dict data of
        Inl e \<Rightarrow> (repo, Inl e)
      | Inr a \<Rightarrow>
     (let repo1 = repo\<lparr>asset_files := AList.delete asset_path (asset_files repo)\<rparr> in
      case update_index io repo1 a True of
        (repo2, Inl e) \<Rightarrow> (repo2, Inl e)
      | (repo2, Inr u) \<Rightarrow> (repo2, Inr True)))))"

definition file_delete :: "io_env \<Rightarrow> file_asset_repo \<Rightarrow> string \<Rightarrow> file_asset_repo \<times> (error + bool)" where
  "file_delete io repo aid =
     (case file_delete_body io repo aid of
        (repo', Inl e) \<Rightarrow> (repo', Inl (Raise RepositoryError (''Failed to delete asset: '' @ str e)))
      | (repo', Inr r) \<Rightarrow> (repo', Inr r))"

definition file_count :: "file_asset_repo \<Rightarrow> filters option \<Rightarrow> error + nat" where
  "file_count repo fo =
     (case file_find_all repo fo None None of
        Inl e \<Rightarrow> Inl e
      | Inr assets \<Rightarrow> Inr (length assets))"


subsection \<open>get_statistics\<close>

text \<open>
  A returned dictionary is a JSON value. \<open>JRound n q\<close> is Python's
  \<^verbatim>\<open>round(q, n)\<close> of the quotient \<open>q\<close>, kept exact: the floating-point
  rounding is not evaluated.
\<close>

datatype json =
    JInt int
  | JRound nat rat
  | JNum rat
  | JStr string
  | JBool bool
  | JStrList "string list"
  | JDict "(string \<times> json) list"



section \<open>The relationship entity\<close>

text \<open>
  The dataclass \<^verbatim>\<open>Relationship\<close>. Its fields \<^verbatim>\<open>properties\<close>,
  \<^verbatim>\<open>created_at\<close> and \<^verbatim>\<open>updated_at\<close> carry the prefix \<open>rel_\<close> here, the
  names being taken by the asset record.
\<close>

record relationship =
  source_id :: string
  target_id :: string
  relationship_type :: string
  relationship_id :: string
  rel_properties :: "(string \<times> string) list"
  confidence :: rat
  rel_created_at :: nat
  rel_updated_at :: nat
  discovered_by :: string
  discovery_method :: string

definition allowed_relationship_types :: "string list" where
  "allowed_relationship_types = [''depends_on'', ''connects_to'', ''contains'', ''contained_by'',
     ''uses'', ''used_by'', ''manages'', ''managed_by'', ''secures'', ''secured_by'',
     ''backs_up'', ''backed_up_by'', ''replicates_to'', ''replicated_from'',
     ''load_balances'', ''load_balanced_by'', ''monitors'', ''monitored_by'',
     ''owns'', ''owned_by'']"

definition allowed_methods :: "string list" where
  "allowed_methods = [''explicit'', ''implicit'', ''inferred'', ''discovered'']"

definition rel_validate :: "relationship \<Rightarrow> error + unit" where
  "rel_validate r =
     (if source_id r = [] then Inl (Raise ValueError ''Source ID is required'')
      else if target_id r = [] then Inl (Raise ValueError ''Target ID is required'')
      else if relationship_type r = [] then Inl (Raise ValueError ''Relationship type is required'')
      else if source_id r = target_id r
        then Inl (Raise ValueError ''Self-relationships are not allowed'')
      else if relationship_type r \<notin> set allowed_relationship_types
        then Inl (Raise ValueError (''Invalid relationship type: '' @ relationship_type r))
      else if \<not> (0 \<le> confidence r \<and> confidence r \<le> 1)
        then Inl (Raise ValueError ''Confidence must be between 0 and 1'')
      else if discovery_method r \<notin> set allowed_methods
        then Inl (Raise ValueError (''Invalid discovery method: '' @ discovery_method r))
      else Inr ())"

definition uuid_hex12 :: string where
  "uuid_hex12 = ''000000000000''"

definition rel_to_dict :: "relationship \<Rightarrow> relationship" where
  "rel_to_dict r = r"

text \<open>The constructor fills in an empty id first and validates afterwards.\<close>

definition rel_from_dict :: "relationship \<Rightarrow> error + relationship" where
  "rel_from_dict d =
     (let r = (if relationship_id d = [] then d\<lparr>relationship_id := ''rel-'' @ uuid_hex12\<rparr> else d)
      in case rel_validate r of Inl e \<Rightarrow> Inl e | Inr u \<Rightarrow> Inr r)"

section \<open>The file-backed relationship store\<close>

text \<open>
  Built like the asset store, with the indices by source, by target and by type. Its
  writes are taken to succeed, but for a file name with a path separator.
\<close>

record file_rel_repo =
  rel_base_path :: string
  rel_compress :: bool
  rel_files :: "(path \<times> relationship) list"
  source_index :: index
  target_index :: index
  rel_type_index :: index

definition FileBasedRelationshipRepository :: "string \<Rightarrow> bool \<Rightarrow> file_rel_repo" where
  "FileBasedRelationshipRepository bp c =
     \<lparr>rel_base_path = bp, rel_compress = c, rel_files = [],
      source_index = [], target_index = [], rel_type_index = []\<rparr>"

definition rel_extension :: "file_rel_repo \<Rightarrow> string" where
  "rel_extension repo = (if rel_compress repo then ''.json.gz'' else ''.json'')"

text \<open>
  \<^verbatim>\<open>_get_relationship_path\<close>, with the first three characters of the id as the
  subdirectory; ids with a path separator are treated as in the asset store.
\<close>

definition rel_file :: "file_rel_repo \<Rightarrow> string \<Rightarrow> path" where
  "rel_file repo rid =
     ((if length rid \<ge> 3 then take 3 rid else ''rel''), rid @ rel_extension repo)"

definition get_relationship_path :: "file_rel_repo \<Rightarrow> string \<Rightarrow> error + path" where
  "get_relationship_path repo rid =
     (if has_sep (strip_sep (fst (rel_file repo rid)))
      then Inl (Raise OSError ''No such file or directory'')
      else Inr (rel_file repo rid))"

definition write_relationship :: "file_rel_repo \<Rightarrow> path \<Rightarrow> relationship \<Rightarrow> file_rel_repo \<times> (error + unit)" where
  "write_relationship repo p d =
     (if has_sep (snd p) then (repo, Inl (Raise OSError ''No such file or directory''))
      else (repo\<lparr>rel_files := AList.update p d (rel_files repo)\<rparr>, Inr ()))"

definition rel_update_index :: "file_rel_repo \<Rightarrow> relationship \<Rightarrow> bool \<Rightarrow> file_rel_repo \<times> (error + unit)" where
  "rel_update_index repo r remove =
     (case (if remove then index_remove (source_id r) (relationship_id r) (source_index repo)
            else Inr (index_add (source_id r) (relationship_id r) (source_index repo))) of
        Inl e \<Rightarrow> (repo, Inl e)
      | Inr source_idx \<Rightarrow>
     (let repo1 = repo\<lparr>source_index := source_idx\<rparr> in
      case (if remove then index_remove (target_id r) (relationship_id r) (target_index repo1)
            else Inr (index_add (target_id r) (relationship_id r) (target_index repo1))) of
        Inl e \<Rightarrow> (repo1, Inl e)
      | Inr target_idx \<Rightarrow>
     (let repo2 = repo1\<lparr>target_index := target_idx\<rparr> in
      case (if remove then index_remove (relationship_type r) (relationship_id r) (rel_type_index repo2)
            else Inr (index_add (relationship_type r) (relationship_id r) (rel_type_index repo2))) of
        Inl e \<Rightarrow> (repo2, Inl e)
      | Inr type_idx \<Rightarrow> (repo2\<lparr>rel_type_index := type_idx\<rparr>, Inr ()))))"

definition file_rel_find_by_id :: "file_rel_repo \<Rightarrow> string \<Rightarrow> error + relationship option" where
  "file_rel_find_by_id repo rid =
     (case get_relationship_path repo rid of
        Inl e \<Rightarrow> Inl (Raise RepositoryError (''Failed to find relationship: '' @ str e))
      | Inr rel_path \<Rightarrow>
     (case map_of (rel_files repo) rel_path of
        None \<Rightarrow> Inr None
      | Some d \<Rightarrow>
          (case rel_from_dict d of
             Inl e \<Rightarrow> Inl (Raise RepositoryError (''Failed to find relationship: '' @ str e))
           | Inr r \<Rightarrow> Inr (Some r))))"

fun collect_relationships :: "file_rel_repo \<Rightarrow> string list \<Rightarrow> error + relationship list" where
  "collect_relationships repo [] = Inr []"
| "collect_relationships repo (rid # rids) =
     (case file_rel_find_by_id repo rid of
        Inl e \<Rightarrow> Inl e
      | Inr found \<Rightarrow>
          (case collect_relationships repo rids of
             Inl e \<Rightarrow> Inl e
           | Inr rels \<Rightarrow> Inr ((case found of Some r \<Rightarrow> [r] | None \<Rightarrow> []) @ rels)))"

definition file_rel_find_by_source :: "file_rel_repo \<Rightarrow> string \<Rightarrow> error + relationship list" where
  "file_rel_find_by_source repo sid =
     (case collect_relationships repo (index_get (source_index repo) sid) of
        Inl e \<Rightarrow> Inl (Raise RepositoryError (''Failed to find relationships by source: '' @ str e))
      | Inr rels \<Rightarrow> Inr rels)"

definition find_exact_relationship :: "file_rel_repo \<Rightarrow> string \<Rightarrow> string \<Rightarrow> string \<Rightarrow> error + relationship option" where
  "find_exact_relationship repo sid tid rtype =
     (case file_rel_find_by_source repo sid of
        Inl e \<Rightarrow> Inl e
      | Inr rels \<Rightarrow> Inr (find (\<lambda>rel. target_id rel = tid \<and> relationship_type rel = rtype) rels))"

definition file_rel_save_body :: "file_rel_repo \<Rightarrow> relationship \<Rightarrow> file_rel_repo \<times> (error + relationship)" where
  "file_rel_save_body repo r =
     (case get_relationship_path repo (relationship_id r) of
        Inl e \<Rightarrow> (repo, Inl e)
      | Inr rel_path \<Rightarrow>
      if map_of (rel_files repo) rel_path \<noteq> None
      then (repo, Inl (Raise DuplicateRelationshipError
                         (''Relationship '' @ relationship_id r @ '' already exists'')))
      else (case find_exact_relationship repo (source_id r) (target_id r) (relationship_type r) of
              Inl e \<Rightarrow> (repo, Inl e)
            | Inr (Some existing) \<Rightarrow>
                (repo, Inl (Raise DuplicateRelationshipError
                              (''Relationship already exists: '' @ relationship_id existing)))
            | Inr None \<Rightarrow>
                (case write_relationship repo rel_path (rel_to_dict r) of
                   (repo1, Inl e) \<Rightarrow> (repo1, Inl e)
                 | (repo1, Inr u1) \<Rightarrow>
                     (case rel_update_index repo1 r False of
                        (repo2, Inl e) \<Rightarrow> (repo2, Inl e)
                      | (repo2, Inr u) \<Rightarrow> (repo2, Inr r)))))"

definition file_rel_save :: "file_rel_repo \<Rightarrow> relationship \<Rightarrow> file_rel_repo \<times> (error + relationship)" where
  "file_rel_save repo r =
     (case file_rel_save_body repo r of
        (repo', Inl e) \<Rightarrow> (repo', Inl (Raise RepositoryError (''Failed to save relationship: '' @ str e)))
      | (repo', Inr x) \<Rightarrow> (repo', Inr x))"






section \<open>The relational store\<close>

text \<open>
  The database file holds the three tables of \<^verbatim>\<open>_init_database\<close>. The SQL
  statements the adapters send are given their SQLite meaning: a primary key and a
  \<^verbatim>\<open>UNIQUE\<close> constraint are checked when the row is written, a foreign key at the
  end of the statement and only when \<^verbatim>\<open>PRAGMA foreign_keys\<close> is on (SQLite's own
  default is off), and \<^verbatim>\<open>ON DELETE CASCADE\<close> likewise acts only then.
\<close>

record sqlite_db =
  assets_table :: "asset list"
  asset_tags_table :: "(string \<times> string \<times> string) list"
  relationships_table :: "relationship list"

record sqlite_connection =
  db_path :: string
  pragmas :: "(string \<times> string) list"
  db :: sqlite_db

definition default_pragmas :: "(string \<times> string) list" where
  "default_pragmas = [(''journal_mode'', ''WAL''), (''synchronous'', ''NORMAL''),
     (''cache_size'', ''-64000''), (''temp_store'', ''MEMORY''), (''foreign_keys'', ''ON'')]"

definition empty_db :: sqlite_db where
  "empty_db = \<lparr>assets_table = [], asset_tags_table = [], relationships_table = []\<rparr>"

text \<open>
  \<^verbatim>\<open>SQLiteConnection.__init__\<close> on a new file: \<^verbatim>\<open>pragmas or {...}\<close> takes the
  defaults when no dictionary, or an empty one, is given.
\<close>

definition SQLiteConnection :: "string \<Rightarrow> (string \<times> string) list option \<Rightarrow> sqlite_connection" where
  "SQLiteConnection p pr =
     \<lparr>db_path = p,
      pragmas = (case pr of None \<Rightarrow> default_pragmas | Some ps \<Rightarrow> if ps = [] then default_pragmas else ps),
      db = empty_db\<rparr>"

text \<open>
  The value of a pragma is formatted into the statement as it is, and SQLite reads a
  boolean from it without regard to case: \<^verbatim>\<open>on\<close>, \<^verbatim>\<open>yes\<close> and \<^verbatim>\<open>true\<close> are
  on; a value that starts with a digit is read as a 32-bit integer (0 when it does not
  fit) and is on when its low byte is not zero; anything else is off.
\<close>

definition lower :: "string \<Rightarrow> string" where
  "lower s =
     map (\<lambda>c. let n = (of_char c :: nat) in if 65 \<le> n \<and> n \<le> 90 then char_of (n + 32) else c) s"

definition is_digit :: "char \<Rightarrow> bool" where
  "is_digit c = (let n = (of_char c :: nat) in 48 \<le> n \<and> n \<le> 57)"

definition atoi :: "string \<Rightarrow> int" where
  "atoi s =
     (let ds = dropWhile (\<lambda>c. c = CHR ''0'') (takeWhile is_digit s);
          v = fold (\<lambda>c n. 10 * n + ((of_char c :: int) - 48)) ds 0
      in if length ds \<le> 10 \<and> v \<le> 2147483647 then v else 0)"

definition pragma_on :: "string \<Rightarrow> bool" where
  "pragma_on v =
     (case lower v of
        [] \<Rightarrow> False
      | c # cs \<Rightarrow>
          (if is_digit c then atoi (c # cs) mod 256 \<noteq> 0
           else c # cs \<in> set [''on'', ''yes'', ''true'']))"

text \<open>
  The pragmas are set in the order of the dictionary, and SQLite reads the name of a
  pragma without regard to case as well: the last entry that names
  \<^verbatim>\<open>foreign_keys\<close> decides. Names and values are taken to be single bare words.
\<close>

definition foreign_keys :: "sqlite_connection \<Rightarrow> bool" where
  "foreign_keys c =
     (case filter (\<lambda>kv. lower (fst kv) = ''foreign_keys'') (pragmas c) of
        [] \<Rightarrow> False
      | kv # kvs \<Rightarrow> pragma_on (snd (last (kv # kvs))))"

text \<open>
  \<^verbatim>\<open>get_connection\<close>: the body runs on the connection; a normal exit commits, an
  exception rolls back to the database as it was and is raised again.
\<close>

definition get_connection :: "sqlite_connection \<Rightarrow> (sqlite_db \<times> (error + 'a)) \<Rightarrow> sqlite_connection \<times> (error + 'a)" where
  "get_connection c outcome =
     (case outcome of
        (d', Inl e) \<Rightarrow> (c, Inl e)
      | (d', Inr v) \<Rightarrow> (c\<lparr>db := d'\<rparr>, Inr v))"

subsection \<open>Statements\<close>

definition asset_row_exists :: "sqlite_db \<Rightarrow> string \<Rightarrow> bool" where
  "asset_row_exists d aid = (aid \<in> set (map asset_id (assets_table d)))"

definition insert_asset :: "sqlite_db \<Rightarrow> asset \<Rightarrow> sqlite_db \<times> (error + unit)" where
  "insert_asset d row =
     (if asset_row_exists d (asset_id row)
      then (d, Inl (Raise IntegrityError ''UNIQUE constraint failed: assets.asset_id''))
      else (d\<lparr>assets_table := assets_table d @ [row]\<rparr>, Inr ()))"

definition insert_asset_tag :: "bool \<Rightarrow> sqlite_db \<Rightarrow> string \<times> string \<times> string \<Rightarrow> sqlite_db \<times> (error + unit)" where
  "insert_asset_tag fk d row =
     (if (fst row, fst (snd row)) \<in> set (map (\<lambda>t. (fst t, fst (snd t))) (asset_tags_table d))
      then (d, Inl (Raise IntegrityError
                      ''UNIQUE constraint failed: asset_tags.asset_id, asset_tags.tag_key''))
      else if fk \<and> \<not> asset_row_exists d (fst row)
      then (d, Inl (Raise IntegrityError ''FOREIGN KEY constraint failed''))
      else (d\<lparr>asset_tags_table := asset_tags_table d @ [row]\<rparr>, Inr ()))"

fun insert_tags :: "bool \<Rightarrow> sqlite_db \<Rightarrow> string \<Rightarrow> (string \<times> string) list \<Rightarrow> sqlite_db \<times> (error + unit)" where
  "insert_tags fk d aid [] = (d, Inr ())"
| "insert_tags fk d aid (kv # kvs) =
     (case insert_asset_tag fk d (aid, fst kv, snd kv) of
        (d', Inl e) \<Rightarrow> (d', Inl e)
      | (d', Inr u) \<Rightarrow> insert_tags fk d' aid kvs)"





subsection \<open>The asset repository\<close>

text \<open>
  \<^verbatim>\<open>_row_to_asset\<close> builds the asset from its four required columns, which validates
  them with the defaults in the other fields, and then assigns the remaining columns.
\<close>

definition blank_asset :: "string \<Rightarrow> string \<Rightarrow> string \<Rightarrow> string \<Rightarrow> asset" where
  "blank_asset i t p n =
     \<lparr>asset_id = i, asset_type = t, provider = p, name = n, properties = [], tags = [],
      metadata = [], created_at = 0, updated_at = 0, discovered_at = 0, status = ''active'',
      health = ''healthy'', compliance_status = ''unknown'', risk_score = 0, estimated_cost = 0\<rparr>"

definition row_to_asset :: "asset \<Rightarrow> error + asset" where
  "row_to_asset row =
     (case from_dict (blank_asset (asset_id row) (asset_type row) (provider row) (name row)) of
        Inl e \<Rightarrow> Inl e
      | Inr a \<Rightarrow> Inr (row\<lparr>asset_id := asset_id a\<rparr>))"

text \<open>
  A handler \<^verbatim>\<open>except sqlite3.Error\<close> turns the driver's errors into
  \<^verbatim>\<open>RepositoryError\<close>; any other exception passes through unchanged.
\<close>

definition except_sqlite3_Error :: "string \<Rightarrow> 's \<times> (error + 'a) \<Rightarrow> 's \<times> (error + 'a)" where
  "except_sqlite3_Error msg outcome =
     (case outcome of
        (c, Inl e) \<Rightarrow>
          (if isinstance (exc_class_of e) Sqlite3Error
           then (c, Inl (Raise RepositoryError (msg @ str e)))
           else (c, Inl e))
      | (c, Inr v) \<Rightarrow> (c, Inr v))"

definition sqlite_save_body :: "bool \<Rightarrow> sqlite_db \<Rightarrow> asset \<Rightarrow> sqlite_db \<times> (error + asset)" where
  "sqlite_save_body fk d a =
     (if asset_row_exists d (asset_id a)
      then (d, Inl (Raise DuplicateAssetError (''Asset '' @ asset_id a @ '' already exists'')))
      else (case insert_asset d a of
              (d1, Inl e) \<Rightarrow> (d1, Inl e)
            | (d1, Inr u) \<Rightarrow>
                (case insert_tags fk d1 (asset_id a) (tags a) of
                   (d2, Inl e) \<Rightarrow> (d2, Inl e)
                 | (d2, Inr u') \<Rightarrow> (d2, Inr a))))"

definition sqlite_save :: "sqlite_connection \<Rightarrow> asset \<Rightarrow> sqlite_connection \<times> (error + asset)" where
  "sqlite_save c a =
     except_sqlite3_Error ''Failed to save asset: ''
       (get_connection c (sqlite_save_body (foreign_keys c) (db c) a))"

definition sqlite_find_by_id :: "sqlite_connection \<Rightarrow> string \<Rightarrow> error + asset option" where
  "sqlite_find_by_id c aid =
     (case find (\<lambda>a. asset_id a = aid) (assets_table (db c)) of
        None \<Rightarrow> Inr None
      | Some row \<Rightarrow> (case row_to_asset row of Inl e \<Rightarrow> Inl e | Inr a \<Rightarrow> Inr (Some a)))"




text \<open>
  \<^verbatim>\<open>find_by_tags\<close> joins the conditions with \<^verbatim>\<open>OR\<close> behind \<^verbatim>\<open>WHERE\<close>. With
  no tag the text reads \<^verbatim>\<open>WHERE  GROUP BY\<close>, which SQLite refuses to parse.
\<close>

definition tag_conditions :: "(string \<times> string) list \<Rightarrow> string list" where
  "tag_conditions ts = map (\<lambda>kv. ''(tag_key = ? AND tag_value = ?)'') ts"

definition tagged_rows :: "sqlite_db \<Rightarrow> (string \<times> string) list \<Rightarrow> asset list" where
  "tagged_rows d ts =
     filter (\<lambda>a.
        (let joined = filter (\<lambda>t. fst t = asset_id a \<and> (fst (snd t), snd (snd t)) \<in> set ts)
                        (asset_tags_table d)
         in joined \<noteq> [] \<and> length (remdups (map (\<lambda>t. fst (snd t)) joined)) = length ts))
       (assets_table d)"

fun rows_to_assets :: "asset list \<Rightarrow> error + asset list" where
  "rows_to_assets [] = Inr []"
| "rows_to_assets (row # rows) =
     (case row_to_asset row of
        Inl e \<Rightarrow> Inl e
      | Inr a \<Rightarrow> (case rows_to_assets rows of Inl e \<Rightarrow> Inl e | Inr as \<Rightarrow> Inr (a # as)))"

definition sqlite_find_by_tags_body :: "sqlite_db \<Rightarrow> (string \<times> string) list \<Rightarrow> sqlite_db \<times> (error + asset list)" where
  "sqlite_find_by_tags_body d ts =
     (if join '' OR '' (tag_conditions ts) = []
      then (d, Inl (Raise OperationalError ''near GROUP: syntax error''))
      else (d, rows_to_assets (tagged_rows d ts)))"

definition sqlite_find_by_tags :: "sqlite_connection \<Rightarrow> (string \<times> string) list \<Rightarrow> error + asset list" where
  "sqlite_find_by_tags c ts =
     snd (except_sqlite3_Error ''Failed to find assets by tags: ''
            (get_connection c (sqlite_find_by_tags_body (db c) ts)))"

subsection \<open>The relationship repository\<close>








section \<open>The graph store with fallback\<close>

text \<open>
  The graph database is outside the repository. It is a list of \<^verbatim>\<open>Asset\<close> nodes and
  a list of \<^verbatim>\<open>RELATIONSHIP\<close> edges, an edge naming its end nodes by their ids; the
  Cypher statements the adapters send are given their meaning on it. \<open>server = None\<close>
  is the unreachable endpoint, where every \<^verbatim>\<open>session.run\<close> raises.
\<close>

record graph_db =
  nodes :: "asset list"
  edges :: "relationship list"





definition unreachable :: error where
  "unreachable = Raise ServiceUnavailable ''Unable to connect''"

text \<open>
  The calls on the fallback store, with the store put back into the repository. They are
  reached only with a fallback at hand; without one Python would fail on \<^verbatim>\<open>None\<close>.
\<close>

definition no_fallback :: error where
  "no_fallback = Raise Exception ''NoneType object has no attribute''"
































subsection \<open>The relationship repository on the graph\<close>

record memgraph_rel_repo =
  rel_available :: bool
  rel_fallback_repository :: "file_rel_repo option"
  rel_server :: "graph_db option"

definition rel_use_fallback :: "memgraph_rel_repo \<Rightarrow> bool" where
  "rel_use_fallback repo = (\<not> rel_available repo \<and> rel_fallback_repository repo \<noteq> None)"

definition fallback_rel_save :: "memgraph_rel_repo \<Rightarrow> relationship \<Rightarrow> memgraph_rel_repo \<times> (error + relationship)" where
  "fallback_rel_save repo r =
     (case rel_fallback_repository repo of
        None \<Rightarrow> (repo, Inl no_fallback)
      | Some fb \<Rightarrow>
          (case file_rel_save fb r of (fb', res) \<Rightarrow> (repo\<lparr>rel_fallback_repository := Some fb'\<rparr>, res)))"

text \<open>
  \<^verbatim>\<open>save\<close> sends two statements. The first matches an edge of the given type between
  the two ids. The second matches the source node, matches the target node, and creates
  an edge for every pair of matches: with no match on either side it creates nothing and
  still succeeds.
\<close>

definition edge_exists :: "graph_db \<Rightarrow> string \<Rightarrow> string \<Rightarrow> string \<Rightarrow> bool" where
  "edge_exists g sid tid rtype =
     (\<exists>e \<in> set (edges g). source_id e = sid \<and> target_id e = tid \<and> relationship_type e = rtype)"

definition create_edge :: "graph_db \<Rightarrow> relationship \<Rightarrow> graph_db" where
  "create_edge g r =
     (let a1 = filter (\<lambda>n. asset_id n = source_id r) (nodes g);
          a2 = filter (\<lambda>n. asset_id n = target_id r) (nodes g)
      in g\<lparr>edges := edges g @ replicate (length a1 * length a2) r\<rparr>)"

definition mg_rel_save_body :: "memgraph_rel_repo \<Rightarrow> relationship \<Rightarrow> memgraph_rel_repo \<times> (error + relationship)" where
  "mg_rel_save_body repo r =
     (case rel_server repo of
        None \<Rightarrow> (repo, Inl unreachable)
      | Some g \<Rightarrow>
          (if edge_exists g (source_id r) (target_id r) (relationship_type r)
           then (repo, Inl (Raise DuplicateRelationshipError ''Relationship already exists''))
           else (repo\<lparr>rel_server := Some (create_edge g r)\<rparr>, Inr r)))"

definition mg_rel_save :: "memgraph_rel_repo \<Rightarrow> relationship \<Rightarrow> memgraph_rel_repo \<times> (error + relationship)" where
  "mg_rel_save repo r =
     (if rel_use_fallback repo then fallback_rel_save repo r
      else (case mg_rel_save_body repo r of
              (repo', Inr x) \<Rightarrow> (repo', Inr x)
            | (repo', Inl e) \<Rightarrow>
                (if rel_fallback_repository repo' \<noteq> None then fallback_rel_save repo' r
                 else (repo', Inl (Raise RepositoryError (''Failed to save relationship: '' @ str e))))))"

definition mg_rel_find_by_id_body :: "memgraph_rel_repo \<Rightarrow> string \<Rightarrow> error + relationship option" where
  "mg_rel_find_by_id_body repo rid =
     (case rel_server repo of
        None \<Rightarrow> Inl unreachable
      | Some g \<Rightarrow>
          (case find (\<lambda>e. relationship_id e = rid) (edges g) of
             None \<Rightarrow> Inr None
           | Some e \<Rightarrow> (case rel_from_dict e of Inl x \<Rightarrow> Inl x | Inr r \<Rightarrow> Inr (Some r))))"

definition fallback_rel_find_by_id :: "memgraph_rel_repo \<Rightarrow> string \<Rightarrow> error + relationship option" where
  "fallback_rel_find_by_id repo rid =
     (case rel_fallback_repository repo of
        None \<Rightarrow> Inl no_fallback
      | Some fb \<Rightarrow> file_rel_find_by_id fb rid)"

definition mg_rel_find_by_id :: "memgraph_rel_repo \<Rightarrow> string \<Rightarrow> error + relationship option" where
  "mg_rel_find_by_id repo rid =
     (if rel_use_fallback repo then fallback_rel_find_by_id repo rid
      else (case mg_rel_find_by_id_body repo rid of
              Inr r \<Rightarrow> Inr r
            | Inl e \<Rightarrow>
                (if rel_fallback_repository repo \<noteq> None then fallback_rel_find_by_id repo rid
                 else Inl (Raise RepositoryError (''Failed to find relationship: '' @ str e)))))"





section \<open>Example data\<close>

text \<open>
  Concrete stores for the closed theorems below. \<open>x1\<close> carries two tags that build
  the same index key \<^verbatim>\<open>a=b=c\<close>, which \<open>y1\<close> shares.
\<close>

definition mk_asset :: "string \<Rightarrow> string \<Rightarrow> string \<Rightarrow> (string \<times> string) list \<Rightarrow> asset" where
  "mk_asset i t p ts = (blank_asset i t p ''n'')\<lparr>tags := ts\<rparr>"

definition asset_a1 :: asset where
  "asset_a1 = mk_asset ''a1'' ''compute'' ''aws'' [(''env'', ''prod'')]"


definition asset_x1 :: asset where
  "asset_x1 = mk_asset ''x1'' ''compute'' ''aws'' [(''a'', ''b=c''), (''a=b'', ''c'')]"

definition asset_y1 :: asset where
  "asset_y1 = mk_asset ''y1'' ''compute'' ''aws'' [(''a'', ''b=c'')]"


definition repo_empty :: file_asset_repo where
  "repo_empty = FileBasedAssetRepository ''data'' True"

definition repo_a :: file_asset_repo where
  "repo_a = fst (file_save no_faults repo_empty asset_a1)"


definition repo_xy :: file_asset_repo where
  "repo_xy = fst (file_save no_faults (fst (file_save no_faults repo_empty asset_x1)) asset_y1)"

definition rel_a1_a2 :: relationship where
  "rel_a1_a2 = \<lparr>source_id = ''a1'', target_id = ''a2'', relationship_type = ''depends_on'',
     relationship_id = ''rel-1'', rel_properties = [], confidence = 1, rel_created_at = 0,
     rel_updated_at = 0, discovered_by = ''manual'', discovery_method = ''explicit''\<rparr>"

definition rel_repo_empty :: file_rel_repo where
  "rel_repo_empty = FileBasedRelationshipRepository ''rels'' True"

definition conn_a1 :: sqlite_connection where
  "conn_a1 = fst (sqlite_save (SQLiteConnection ''cloudscope.db'' None) asset_a1)"



definition graph_a1 :: graph_db where
  "graph_a1 = \<lparr>nodes = [asset_a1], edges = []\<rparr>"

definition mg_rel_repo_a1 :: memgraph_rel_repo where
  "mg_rel_repo_a1 = \<lparr>rel_available = True, rel_fallback_repository = None,
     rel_server = Some graph_a1\<rparr>"

section \<open>Predicates on states\<close>

text \<open>
  The referential integrity of the graph database: every edge joins two nodes that exist.
\<close>

definition graph_wf :: "graph_db \<Rightarrow> bool" where
  "graph_wf g =
     list_all (\<lambda>e. source_id e \<in> set (map asset_id (nodes g)) \<and>
                    target_id e \<in> set (map asset_id (nodes g))) (edges g)"

















chapter \<open>Verified properties\<close>

section \<open>Indices and paths\<close>











lemma has_sep_append: "has_sep (xs @ ys) = (has_sep xs \<or> has_sep ys)"
  by (auto simp: has_sep_def)

lemma has_sep_take: "\<not> has_sep xs \<Longrightarrow> \<not> has_sep (take n xs)"
  by (auto simp: has_sep_def dest: in_set_takeD)

lemma has_sep_strip_sep: "\<not> has_sep xs \<Longrightarrow> \<not> has_sep (strip_sep xs)"
  by (auto simp: has_sep_def strip_sep_def dest: set_dropWhileD)

lemma extension_plain: "\<not> has_sep (extension repo)"
  by (simp add: extension_def has_sep_def)

lemma get_asset_path_plain:
  "\<not> has_sep aid \<Longrightarrow>
   get_asset_path repo aid = Inr (asset_file repo aid) \<and> \<not> has_sep (snd (asset_file repo aid))"
  by (auto simp: get_asset_path_def asset_file_def has_sep_append extension_plain
      has_sep_take has_sep_strip_sep) (simp add: has_sep_def strip_sep_def)

lemma get_asset_path_cong:
  "compress repo' = compress repo \<Longrightarrow> get_asset_path repo' aid = get_asset_path repo aid"
  by (simp add: get_asset_path_def asset_file_def extension_def)

section \<open>Tag queries with no tag\<close>

text \<open>
  Claim C10. In every state of the file store, \<^verbatim>\<open>find_by_tags\<close> with the empty tag
  map returns the empty list: the loop never runs, \<open>matching_ids\<close> stays
  \<^verbatim>\<open>None\<close>, and the guard \<^verbatim>\<open>if not matching_ids\<close> returns. On the same input
  the relational store raises \<^verbatim>\<open>RepositoryError\<close>, from the query with nothing
  behind \<^verbatim>\<open>WHERE\<close>.
\<close>

theorem find_by_tags_empty_map:
  "file_find_by_tags repo [] = Inr [] \<and>
   sqlite_find_by_tags c [] =
     Inl (Raise RepositoryError ''Failed to find assets by tags: near GROUP: syntax error'')"
  by (simp add: file_find_by_tags_def sqlite_find_by_tags_def sqlite_find_by_tags_body_def
      tag_conditions_def get_connection_def except_sqlite3_Error_def)

section \<open>Relationships to a missing node on the graph\<close>

lemma create_edge_missing:
  "source_id r \<notin> set (map asset_id (nodes g)) \<or> target_id r \<notin> set (map asset_id (nodes g))
   \<Longrightarrow> create_edge g r = g"
proof -
  assume "source_id r \<notin> set (map asset_id (nodes g)) \<or> target_id r \<notin> set (map asset_id (nodes g))"
  then have "filter (\<lambda>n. asset_id n = source_id r) (nodes g) = [] \<or>
             filter (\<lambda>n. asset_id n = target_id r) (nodes g) = []"
    by (fastforce simp: filter_empty_conv image_iff)
  then have "length (filter (\<lambda>n. asset_id n = source_id r) (nodes g)) *
             length (filter (\<lambda>n. asset_id n = target_id r) (nodes g)) = 0"
    by auto
  then show ?thesis by (simp add: create_edge_def)
qed

lemma no_edge_missing:
  "graph_wf g \<Longrightarrow>
   source_id r \<notin> set (map asset_id (nodes g)) \<or> target_id r \<notin> set (map asset_id (nodes g))
   \<Longrightarrow> \<not> edge_exists g (source_id r) (target_id r) (relationship_type r)"
  unfolding graph_wf_def edge_exists_def list_all_iff by fastforce

lemma find_fresh: "x \<notin> set (map f xs) \<Longrightarrow> find (\<lambda>e. f e = x) xs = None"
  by (induction xs) auto

text \<open>
  Claim C9. The graph backend is available and the source or the target node is not in
  the graph. Then \<^verbatim>\<open>MemgraphRelationshipRepository.save\<close> raises nothing and returns
  the relationship, the graph is left as it was (no edge is created), and, for a
  relationship id that no edge carries yet, \<^verbatim>\<open>find_by_id\<close> of that id afterwards
  returns \<^verbatim>\<open>None\<close>: the round trip fails silently.
\<close>

theorem mg_rel_save_missing_endpoint:
  assumes "rel_available repo" and "rel_server repo = Some g" and "graph_wf g"
    and "source_id r \<notin> set (map asset_id (nodes g)) \<or> target_id r \<notin> set (map asset_id (nodes g))"
    and "relationship_id r \<notin> set (map relationship_id (edges g))"
  shows "mg_rel_save repo r = (repo, Inr r) \<and>
         mg_rel_find_by_id (fst (mg_rel_save repo r)) (relationship_id r) = Inr None"
proof -
  have unchanged: "create_edge g r = g"
    using assms(4) by (rule create_edge_missing)
  have no_dup: "\<not> edge_exists g (source_id r) (target_id r) (relationship_type r)"
    using assms(3,4) by (rule no_edge_missing)
  have save: "mg_rel_save repo r = (repo, Inr r)"
    using assms(1,2) unchanged no_dup
    by (simp add: mg_rel_save_def rel_use_fallback_def mg_rel_save_body_def)
  have "mg_rel_find_by_id repo (relationship_id r) = Inr None"
    using assms(1,2) find_fresh[OF assms(5)]
    by (simp add: mg_rel_find_by_id_def rel_use_fallback_def mg_rel_find_by_id_body_def)
  with save show ?thesis by simp
qed

theorem mg_rel_save_missing_endpoint_witness:
  "mg_rel_save mg_rel_repo_a1 rel_a1_a2 = (mg_rel_repo_a1, Inr rel_a1_a2) \<and>
   mg_rel_find_by_id (fst (mg_rel_save mg_rel_repo_a1 rel_a1_a2)) ''rel-1'' = Inr None"
proof -
  have 1: "rel_available mg_rel_repo_a1" by (simp add: mg_rel_repo_a1_def)
  have 2: "rel_server mg_rel_repo_a1 = Some graph_a1" by (simp add: mg_rel_repo_a1_def)
  have 3: "graph_wf graph_a1" by (simp add: graph_wf_def graph_a1_def)
  have 4: "source_id rel_a1_a2 \<notin> set (map asset_id (nodes graph_a1)) \<or>
           target_id rel_a1_a2 \<notin> set (map asset_id (nodes graph_a1))"
    by (simp add: rel_a1_a2_def graph_a1_def asset_a1_def mk_asset_def blank_asset_def)
  have 5: "relationship_id rel_a1_a2 \<notin> set (map relationship_id (edges graph_a1))"
    by (simp add: graph_a1_def)
  have 6: "relationship_id rel_a1_a2 = ''rel-1''" by (simp add: rel_a1_a2_def)
  show ?thesis using mg_rel_save_missing_endpoint[OF 1 2 3 4 5] unfolding 6 .
qed

section \<open>Saving what is already stored\<close>

text \<open>
  Claim C2. Saving an asset id a second time must raise \<^verbatim>\<open>DuplicateAssetError\<close>, and
  a relationship a second time \<^verbatim>\<open>DuplicateRelationshipError\<close>. The file store raises
  the duplicate error inside its \<^verbatim>\<open>try\<close>, where its own \<^verbatim>\<open>except Exception\<close>
  catches it: what leaves \<^verbatim>\<open>save\<close> is a plain \<^verbatim>\<open>RepositoryError\<close>, for assets and
  for relationships. The relational store, on the same asset, raises
  \<^verbatim>\<open>DuplicateAssetError\<close>.
\<close>

theorem file_save_twice_raises_generic:
  "snd (file_save no_faults repo_a asset_a1) =
     Inl (Raise RepositoryError ''Failed to save asset: Asset a1 already exists'') \<and>
   snd (file_rel_save (fst (file_rel_save rel_repo_empty rel_a1_a2)) rel_a1_a2) =
     Inl (Raise RepositoryError ''Failed to save relationship: Relationship rel-1 already exists'') \<and>
   snd (sqlite_save conn_a1 asset_a1) = Inl (Raise DuplicateAssetError ''Asset a1 already exists'')"
  by code_simp

text \<open>
  Claim C3. A batch made only of duplicates must return the empty list without raising.
  In the file store \<^verbatim>\<open>save_batch\<close> looks for \<^verbatim>\<open>DuplicateAssetError\<close>, which
  \<^verbatim>\<open>save\<close> never lets out: the duplicate is counted as an error, nothing was saved,
  and the batch raises \<^verbatim>\<open>RepositoryError\<close>.
\<close>

theorem file_save_batch_all_duplicates_raises:
  "file_save_batch no_faults repo_a [asset_a1] =
     (repo_a, Inl (Raise RepositoryError
        ''Batch save failed: a1: Failed to save asset: Asset a1 already exists''))"
  by code_simp

section \<open>Deleting an asset whose tags share an index key\<close>

text \<open>
  Claim C6. After \<^verbatim>\<open>delete\<close> the id must be in no secondary index. The tag index
  keys an entry by \<^verbatim>\<open>key=value\<close>; the tags \<^verbatim>\<open>a: b=c\<close> and \<^verbatim>\<open>a=b: c\<close> of
  \<open>x1\<close> give the same key. Deleting \<open>x1\<close> removes its file and takes the id from the
  list of that key once; the second tag finds the key still there (it also lists
  \<open>y1\<close>), \<^verbatim>\<open>list.remove\<close> raises, and the tag index file is never rewritten: the
  id stays in it.
\<close>

theorem file_delete_tag_collision:
  "snd (file_delete no_faults repo_xy ''x1'') =
     Inl (Raise RepositoryError ''Failed to delete asset: list.remove(x): x not in list'') \<and>
   file_find_by_id (fst (file_delete no_faults repo_xy ''x1'')) ''x1'' = Inr None \<and>
   ''x1'' \<in> set (index_get (tag_index (fst (file_delete no_faults repo_xy ''x1''))) ''a=b=c'')"
  by code_simp

section \<open>A relationship whose target is not stored\<close>













section \<open>The graph repository on its fallback\<close>












section \<open>Mutations that raise\<close>


















section \<open>What an update does to the indices\<close>








section \<open>Graph statistics\<close>





















end
